theory Spec2Isabelle
  imports Complex_Main "HOL-Library.Char_ord" "HOL-Library.List_Lexorder"
    "HOL-Library.Multiset" "HOL-Library.Sublist"
begin

section \<open>Numbers\<close>

text \<open>
  The script \<^verbatim>\<open>leerdatos.py\<close> computes with pandas columns of float64 values and
  with the numpy scalars that \<^verbatim>\<open>Series.sum()\<close> and \<^verbatim>\<open>Series.mean()\<close> return.
  A float64 is idealised here as an exact rational, extended by the three special values
  that the script can produce or meet: plus and minus infinity (division of a non-zero
  numpy scalar by zero) and NaN (the mean of no values, zero divided by zero). Rounding
  error, overflow and the sign of zero are outside the model: the result of an
  operation is the exact value here, where the script has the float64 nearest to it.
  The two are the same wherever the result is exactly representable, as every sum of
  whole numbers is while the magnitudes add up to at most \<open>2 ^ 53\<close> (in an int64
  column sums wrap around, but only beyond \<open>2 ^ 63\<close>). The properties of sums of
  several values proved below are stated for amounts within that range.
\<close>

datatype float64 = Fin rat | PInf | NInf | NaN

fun fneg :: "float64 \<Rightarrow> float64" where
  "fneg (Fin a) = Fin (- a)"
| "fneg PInf = NInf"
| "fneg NInf = PInf"
| "fneg NaN = NaN"

fun fadd :: "float64 \<Rightarrow> float64 \<Rightarrow> float64" where
  "fadd NaN _ = NaN"
| "fadd _ NaN = NaN"
| "fadd (Fin a) (Fin b) = Fin (a + b)"
| "fadd PInf NInf = NaN"
| "fadd NInf PInf = NaN"
| "fadd PInf _ = PInf"
| "fadd _ PInf = PInf"
| "fadd NInf _ = NInf"
| "fadd _ NInf = NInf"

definition fsub :: "float64 \<Rightarrow> float64 \<Rightarrow> float64" where
  "fsub a b = fadd a (fneg b)"

fun fmul :: "float64 \<Rightarrow> float64 \<Rightarrow> float64" where
  "fmul NaN _ = NaN"
| "fmul _ NaN = NaN"
| "fmul (Fin a) (Fin b) = Fin (a * b)"
| "fmul (Fin a) PInf = (if a = 0 then NaN else if 0 < a then PInf else NInf)"
| "fmul (Fin a) NInf = (if a = 0 then NaN else if 0 < a then NInf else PInf)"
| "fmul PInf (Fin b) = (if b = 0 then NaN else if 0 < b then PInf else NInf)"
| "fmul NInf (Fin b) = (if b = 0 then NaN else if 0 < b then NInf else PInf)"
| "fmul PInf PInf = PInf"
| "fmul PInf NInf = NInf"
| "fmul NInf PInf = NInf"
| "fmul NInf NInf = PInf"

text \<open>
  Division of numpy scalars does not raise on a zero divisor (numpy only warns): a
  non-zero dividend gives an infinity of its sign, zero by zero gives NaN.
\<close>

fun fdiv :: "float64 \<Rightarrow> float64 \<Rightarrow> float64" where
  "fdiv NaN _ = NaN"
| "fdiv _ NaN = NaN"
| "fdiv (Fin a) (Fin b) =
     (if b = 0 then (if a = 0 then NaN else if 0 < a then PInf else NInf)
      else Fin (a / b))"
| "fdiv (Fin a) PInf = Fin 0"
| "fdiv (Fin a) NInf = Fin 0"
| "fdiv PInf (Fin b) = (if 0 \<le> b then PInf else NInf)"
| "fdiv NInf (Fin b) = (if 0 \<le> b then NInf else PInf)"
| "fdiv PInf PInf = NaN"
| "fdiv PInf NInf = NaN"
| "fdiv NInf PInf = NaN"
| "fdiv NInf NInf = NaN"

text \<open>\<open>fgt a b\<close> is the comparison \<^verbatim>\<open>a > b\<close>: false whenever NaN is involved.\<close>

fun fgt :: "float64 \<Rightarrow> float64 \<Rightarrow> bool" where
  "fgt NaN _ = False"
| "fgt _ NaN = False"
| "fgt (Fin a) (Fin b) = (b < a)"
| "fgt PInf PInf = False"
| "fgt PInf _ = True"
| "fgt _ PInf = False"
| "fgt NInf _ = False"
| "fgt _ NInf = True"

text \<open>
  \<^verbatim>\<open>DataFrame.round(2)\<close> rounds to two decimals, halves to the even neighbour: the
  nearest whole number to a hundred times the value, divided by a hundred. The product
  is taken exactly here; \<^verbatim>\<open>round\<close> takes it in float64, which is the same for
  whole numbers of magnitude up to \<open>2 ^ 53 / 100\<close>, the amounts the property of
  rounded sums below is stated for.
\<close>

definition rint :: "rat \<Rightarrow> int" where
  "rint x =
     (let f = \<lfloor>x\<rfloor>; d = x - of_int f
      in if d < 1 / 2 then f else if 1 / 2 < d then f + 1
         else if even f then f else f + 1)"

definition round2 :: "rat \<Rightarrow> rat" where
  "round2 x = of_int (rint (x * 100)) / 100"

fun fround2 :: "float64 \<Rightarrow> float64" where
  "fround2 (Fin a) = Fin (round2 a)"
| "fround2 x = x"

section \<open>The dataset\<close>

text \<open>
  One row of \<^verbatim>\<open>datos_sinteticos.csv\<close>, with the fifteen columns the script names.
  A cell that the CSV leaves empty is a missing value (pandas reads it as NaN): \<open>None\<close>.
\<close>

record campaign =
  campana_id :: "string option"
  plataforma :: "string option"
  tipo_campana :: "string option"
  audiencia_objetivo :: "string option"
  presupuesto_diario :: "rat option"
  impresiones :: "rat option"
  clicks :: "rat option"
  conversiones :: "rat option"
  costo_total :: "rat option"
  revenue_generado :: "rat option"
  ctr :: "rat option"
  conversion_rate :: "rat option"
  cpc :: "rat option"
  cpa :: "rat option"
  roas :: "rat option"

type_synonym dataframe = "campaign list"

datatype py_error = ValueError | TypeError

section \<open>The pandas operations the script calls\<close>

text \<open>
  The reductions skip missing values (\<^verbatim>\<open>skipna=True\<close> is the default): the sum of no
  values is 0, the mean of no values is NaN, \<^verbatim>\<open>count\<close> counts the values present.
  The sum and the mean of one value are that value. The sum of several values is the
  exact sum here; it is what pandas returns for amounts within the exact range (see the
  section on numbers), and beyond that range pandas returns the float64 rounding or the
  int64 wrap-around of it, which this model does not compute.
\<close>

definition dropna :: "'a option list \<Rightarrow> 'a list" where
  "dropna xs = map the (filter (\<lambda>x. x \<noteq> None) xs)"

definition series_sum :: "rat option list \<Rightarrow> rat" where
  "series_sum xs = sum_list (dropna xs)"

definition series_count :: "'a option list \<Rightarrow> nat" where
  "series_count xs = length (dropna xs)"

definition series_mean :: "rat option list \<Rightarrow> float64" where
  "series_mean xs =
     (if series_count xs = 0 then NaN
      else Fin (series_sum xs / of_nat (series_count xs)))"

text \<open>
  \<^verbatim>\<open>df.groupby(key)\<close> with its defaults \<^verbatim>\<open>sort=True, dropna=True\<close>: one group for
  each key value that occurs, the groups in ascending order of the key, the rows of a
  group in the order of the dataset; a row whose key is missing is in no group.
\<close>

definition groupby :: "(campaign \<Rightarrow> string option) \<Rightarrow> dataframe \<Rightarrow> (string \<times> dataframe) list" where
  "groupby key df =
     map (\<lambda>k. (k, filter (\<lambda>r. key r = Some k) df)) (sort (remdups (dropna (map key df))))"

text \<open>
  \<^verbatim>\<open>Series.max()\<close>, \<^verbatim>\<open>Series.min()\<close> skip NaN, and give NaN when nothing is left.
  \<^verbatim>\<open>Series.idxmax()\<close>, \<^verbatim>\<open>Series.idxmin()\<close> skip NaN and give the label of the
  first occurrence of the extreme value; when nothing is left, on an empty series and
  on a series of NaN only, they raise ValueError.
\<close>

definition notna :: "(string \<times> float64) list \<Rightarrow> (string \<times> float64) list" where
  "notna s = filter (\<lambda>e. snd e \<noteq> NaN) s"

definition extreme :: "(float64 \<Rightarrow> float64 \<Rightarrow> bool) \<Rightarrow> (string \<times> float64) list \<Rightarrow> (string \<times> float64) option" where
  "extreme better s =
     (case notna s of [] \<Rightarrow> None
      | e # es \<Rightarrow> Some (foldl (\<lambda>m x. if better (snd x) (snd m) then x else m) e es))"

definition series_max :: "(string \<times> float64) list \<Rightarrow> float64" where
  "series_max s = (case extreme fgt s of None \<Rightarrow> NaN | Some e \<Rightarrow> snd e)"

definition series_min :: "(string \<times> float64) list \<Rightarrow> float64" where
  "series_min s = (case extreme (\<lambda>a b. fgt b a) s of None \<Rightarrow> NaN | Some e \<Rightarrow> snd e)"

definition idxmax :: "(string \<times> float64) list \<Rightarrow> py_error + string" where
  "idxmax s = (case extreme fgt s of None \<Rightarrow> Inl ValueError | Some e \<Rightarrow> Inr (fst e))"

definition idxmin :: "(string \<times> float64) list \<Rightarrow> py_error + string" where
  "idxmin s =
     (case extreme (\<lambda>a b. fgt b a) s of None \<Rightarrow> Inl ValueError | Some e \<Rightarrow> Inr (fst e))"

text \<open>
  \<^verbatim>\<open>df.nlargest(n, col)\<close> and \<^verbatim>\<open>df.nsmallest(n, col)\<close> with the default
  \<^verbatim>\<open>keep='first'\<close>: the first \<open>n\<close> rows of the dataset ordered by the column
  (descending for nlargest, ascending for nsmallest), equal values in the order of the
  dataset, rows whose value is missing after all the others; nothing when \<open>n \<le> 0\<close>.
  \<open>select_order\<close> is that order of the whole dataset.

  A dataset of zero rows reaches the script from a CSV that holds the header alone.
  pandas gives every column of such a dataset the dtype object, and both methods
  refuse a column of that dtype with TypeError, before they look at \<open>n\<close>.
\<close>

definition select_order :: "bool \<Rightarrow> (campaign \<Rightarrow> rat option) \<Rightarrow> dataframe \<Rightarrow> dataframe" where
  "select_order ascending col df =
     sort_key (\<lambda>r. if ascending then the (col r) else - the (col r))
       (filter (\<lambda>r. col r \<noteq> None) df)
     @ filter (\<lambda>r. col r = None) df"

definition nlargest :: "int \<Rightarrow> (campaign \<Rightarrow> rat option) \<Rightarrow> dataframe \<Rightarrow> py_error + dataframe" where
  "nlargest n col df =
     (if df = [] then Inl TypeError
      else Inr (if n \<le> 0 then [] else take (nat n) (select_order False col df)))"

definition nsmallest :: "int \<Rightarrow> (campaign \<Rightarrow> rat option) \<Rightarrow> dataframe \<Rightarrow> py_error + dataframe" where
  "nsmallest n col df =
     (if df = [] then Inl TypeError
      else Inr (if n \<le> 0 then [] else take (nat n) (select_order True col df)))"

section \<open>The analyses of leerdatos.py\<close>

subsection \<open>Grouped tables\<close>

record fila_plataforma =
  pl_campanas :: nat
  pl_presupuesto_total :: rat
  pl_impresiones :: rat
  pl_clicks :: rat
  pl_conversiones :: rat
  pl_costo_total :: rat
  pl_revenue :: rat
  pl_roas_promedio :: float64

definition analisis_por_plataforma :: "dataframe \<Rightarrow> (string \<times> fila_plataforma) list" where
  "analisis_por_plataforma df =
     map (\<lambda>(k, g). (k,
       \<lparr> pl_campanas = series_count (map campana_id g),
         pl_presupuesto_total = round2 (series_sum (map presupuesto_diario g)),
         pl_impresiones = round2 (series_sum (map impresiones g)),
         pl_clicks = round2 (series_sum (map clicks g)),
         pl_conversiones = round2 (series_sum (map conversiones g)),
         pl_costo_total = round2 (series_sum (map costo_total g)),
         pl_revenue = round2 (series_sum (map revenue_generado g)),
         pl_roas_promedio = fround2 (series_mean (map roas g)) \<rparr>))
       (groupby plataforma df)"

record fila_tipo =
  tp_campanas :: nat
  tp_total_clicks :: rat
  tp_conversiones :: rat
  tp_conversion_rate_promedio :: float64
  tp_roas_promedio :: float64

definition analisis_por_tipo_campana :: "dataframe \<Rightarrow> (string \<times> fila_tipo) list" where
  "analisis_por_tipo_campana df =
     map (\<lambda>(k, g). (k,
       \<lparr> tp_campanas = series_count (map campana_id g),
         tp_total_clicks = round2 (series_sum (map clicks g)),
         tp_conversiones = round2 (series_sum (map conversiones g)),
         tp_conversion_rate_promedio = fround2 (series_mean (map conversion_rate g)),
         tp_roas_promedio = fround2 (series_mean (map roas g)) \<rparr>))
       (groupby tipo_campana df)"

record fila_edad =
  ed_campanas :: nat
  ed_conversiones :: rat
  ed_costo :: rat
  ed_revenue :: rat
  ed_roas_promedio :: float64

definition analisis_por_edad :: "dataframe \<Rightarrow> (string \<times> fila_edad) list" where
  "analisis_por_edad df =
     map (\<lambda>(k, g). (k,
       \<lparr> ed_campanas = series_count (map campana_id g),
         ed_conversiones = round2 (series_sum (map conversiones g)),
         ed_costo = round2 (series_sum (map costo_total g)),
         ed_revenue = round2 (series_sum (map revenue_generado g)),
         ed_roas_promedio = fround2 (series_mean (map roas g)) \<rparr>))
       (groupby audiencia_objetivo df)"

subsection \<open>Key indicators\<close>

record kpis =
  kpi_ctr :: float64
  kpi_conversion_rate :: float64
  kpi_cpc :: float64
  kpi_cpa :: float64
  kpi_roas :: float64
  kpi_presupuesto_total :: float64
  kpi_costo_total :: float64
  kpi_revenue_total :: float64
  kpi_ganancia_neta :: float64

text \<open>
  \<^verbatim>\<open>indicadores_clave\<close> has no check and no raise of its own, and the reductions it
  calls do not raise on any dataset of this column set: it always returns its dictionary.
\<close>

definition indicadores_clave :: "dataframe \<Rightarrow> py_error + kpis" where
  "indicadores_clave df =
     (let ctr_promedio = series_mean (map ctr df);
          conversion_rate_promedio = series_mean (map conversion_rate df);
          cpc_promedio = series_mean (map cpc df);
          cpa_promedio = series_mean (map cpa df);
          roas_promedio = series_mean (map roas df);
          presupuesto_total = Fin (series_sum (map presupuesto_diario df));
          costo = Fin (series_sum (map costo_total df));
          revenue_total = Fin (series_sum (map revenue_generado df));
          ganancia_neta = fsub revenue_total costo
      in Inr \<lparr> kpi_ctr = ctr_promedio,
               kpi_conversion_rate = conversion_rate_promedio,
               kpi_cpc = cpc_promedio,
               kpi_cpa = cpa_promedio,
               kpi_roas = roas_promedio,
               kpi_presupuesto_total = presupuesto_total,
               kpi_costo_total = costo,
               kpi_revenue_total = revenue_total,
               kpi_ganancia_neta = ganancia_neta \<rparr>)"

subsection \<open>Rankings\<close>

text \<open>The six columns that \<^verbatim>\<open>campanas_top\<close> and \<^verbatim>\<open>campanas_bottom\<close> print.\<close>

record fila_ranking =
  rk_campana_id :: "string option"
  rk_plataforma :: "string option"
  rk_tipo_campana :: "string option"
  rk_roas :: "rat option"
  rk_revenue_generado :: "rat option"
  rk_costo_total :: "rat option"

definition seleccion :: "campaign \<Rightarrow> fila_ranking" where
  "seleccion r =
     \<lparr> rk_campana_id = campana_id r, rk_plataforma = plataforma r,
       rk_tipo_campana = tipo_campana r, rk_roas = roas r,
       rk_revenue_generado = revenue_generado r, rk_costo_total = costo_total r \<rparr>"

definition campanas_top :: "dataframe \<Rightarrow> int \<Rightarrow> py_error + fila_ranking list" where
  "campanas_top df n =
     (case nlargest n roas df of Inl e \<Rightarrow> Inl e | Inr rows \<Rightarrow> Inr (map seleccion rows))"

definition campanas_bottom :: "dataframe \<Rightarrow> int \<Rightarrow> py_error + fila_ranking list" where
  "campanas_bottom df n =
     (case nsmallest n roas df of Inl e \<Rightarrow> Inl e | Inr rows \<Rightarrow> Inr (map seleccion rows))"

subsection \<open>Missing values\<close>

datatype column =
  Campana_id | Plataforma | Tipo_campana | Audiencia_objetivo | Presupuesto_diario
| Impresiones | Clicks | Conversiones | Costo_total | Revenue_generado
| Ctr | Conversion_rate | Cpc | Cpa | Roas

definition columns :: "column list" where
  "columns =
     [Campana_id, Plataforma, Tipo_campana, Audiencia_objetivo, Presupuesto_diario,
      Impresiones, Clicks, Conversiones, Costo_total, Revenue_generado,
      Ctr, Conversion_rate, Cpc, Cpa, Roas]"

fun isnull :: "column \<Rightarrow> campaign \<Rightarrow> bool" where
  "isnull Campana_id r = (campana_id r = None)"
| "isnull Plataforma r = (plataforma r = None)"
| "isnull Tipo_campana r = (tipo_campana r = None)"
| "isnull Audiencia_objetivo r = (audiencia_objetivo r = None)"
| "isnull Presupuesto_diario r = (presupuesto_diario r = None)"
| "isnull Impresiones r = (impresiones r = None)"
| "isnull Clicks r = (clicks r = None)"
| "isnull Conversiones r = (conversiones r = None)"
| "isnull Costo_total r = (costo_total r = None)"
| "isnull Revenue_generado r = (revenue_generado r = None)"
| "isnull Ctr r = (ctr r = None)"
| "isnull Conversion_rate r = (conversion_rate r = None)"
| "isnull Cpc r = (cpc r = None)"
| "isnull Cpa r = (cpa r = None)"
| "isnull Roas r = (roas r = None)"

text \<open>
  \<^verbatim>\<open>df.isnull().sum()\<close> is the number of missing cells of each column, and
  \<^verbatim>\<open>faltantes.sum()\<close> their total. The function prints the first and returns the
  second; the model returns both. Nothing in it raises.
\<close>

definition faltantes :: "dataframe \<Rightarrow> (column \<times> nat) list" where
  "faltantes df = map (\<lambda>c. (c, length (filter (isnull c) df))) columns"

definition validacion_datos :: "dataframe \<Rightarrow> py_error + (column \<times> nat) list \<times> nat" where
  "validacion_datos df =
     (let total_faltantes = sum_list (map snd (faltantes df))
      in Inr (faltantes df, total_faltantes))"

subsection \<open>Recommendations\<close>

record recomendacion =
  mejor_plataforma :: string
  mejor_roas :: float64
  peor_plataforma :: string
  peor_roas :: float64
  mejor_edad :: string
  mejor_edad_roas :: float64
  peor_edad :: string
  peor_edad_roas :: float64
  roas_saludable :: bool
  conversion_respetable :: bool
  margen :: float64

text \<open>\<^verbatim>\<open>df.groupby(key)['roas'].mean()\<close>: the mean ROAS of each group.\<close>

definition roas_por :: "(campaign \<Rightarrow> string option) \<Rightarrow> dataframe \<Rightarrow> (string \<times> float64) list" where
  "roas_por key df = map (\<lambda>(k, g). (k, series_mean (map roas g))) (groupby key df)"

text \<open>
  \<^verbatim>\<open>recomendaciones(df, kpis)\<close>. The two flags record which branch of each
  \<^verbatim>\<open>if\<close> prints (the [OK] line or the [ALERTA] line); \<open>margen\<close> is the value of
  \<^verbatim>\<open>(kpis['ganancia_neta'] / kpis['revenue_total']) * 100\<close> on the numpy scalars
  that \<^verbatim>\<open>indicadores_clave\<close> returns.
\<close>

definition recomendaciones :: "dataframe \<Rightarrow> kpis \<Rightarrow> py_error + recomendacion" where
  "recomendaciones df k =
     (case idxmax (roas_por plataforma df) of Inl e \<Rightarrow> Inl e | Inr mp \<Rightarrow>
     (case idxmin (roas_por plataforma df) of Inl e \<Rightarrow> Inl e | Inr pp \<Rightarrow>
     (case idxmax (roas_por audiencia_objetivo df) of Inl e \<Rightarrow> Inl e | Inr me \<Rightarrow>
     (case idxmin (roas_por audiencia_objetivo df) of Inl e \<Rightarrow> Inl e | Inr pe \<Rightarrow>
        Inr \<lparr> mejor_plataforma = mp,
              mejor_roas = series_max (roas_por plataforma df),
              peor_plataforma = pp,
              peor_roas = series_min (roas_por plataforma df),
              mejor_edad = me,
              mejor_edad_roas = series_max (roas_por audiencia_objetivo df),
              peor_edad = pe,
              peor_edad_roas = series_min (roas_por audiencia_objetivo df),
              roas_saludable = fgt (kpi_roas k) (Fin 5),
              conversion_respetable = fgt (kpi_conversion_rate k) (Fin 3),
              margen = fmul (fdiv (kpi_ganancia_neta k) (kpi_revenue_total k)) (Fin 100) \<rparr>))))"

section \<open>Reference notions and example data\<close>

text \<open>
  The total of a column over the records that have a value in it, in exact arithmetic.
\<close>

definition column_total :: "(campaign \<Rightarrow> rat option) \<Rightarrow> dataframe \<Rightarrow> rat" where
  "column_total col df = (\<Sum>r\<leftarrow>df. case col r of None \<Rightarrow> 0 | Some v \<Rightarrow> v)"

text \<open>The float64 that a cell holds: a missing cell is NaN.\<close>

definition cell :: "rat option \<Rightarrow> float64" where
  "cell c = (case c of None \<Rightarrow> NaN | Some v \<Rightarrow> Fin v)"

text \<open>
  Two campaigns in the shape of the CSV: their mean ROAS is exactly 5 and their mean
  conversion rate exactly 3.
\<close>

definition campana_tiktok :: campaign where
  "campana_tiktok =
     \<lparr> campana_id = Some ''C001'', plataforma = Some ''TikTok Ads'',
       tipo_campana = Some ''Video'', audiencia_objetivo = Some ''18-24'',
       presupuesto_diario = Some 20, impresiones = Some 1000, clicks = Some 50,
       conversiones = Some 1, costo_total = Some 50, revenue_generado = Some 100,
       ctr = Some 5, conversion_rate = Some 2, cpc = Some 1, cpa = Some 50,
       roas = Some 2 \<rparr>"

definition campana_facebook :: campaign where
  "campana_facebook =
     \<lparr> campana_id = Some ''C002'', plataforma = Some ''Facebook Ads'',
       tipo_campana = Some ''Display'', audiencia_objetivo = Some ''25-34'',
       presupuesto_diario = Some 30, impresiones = Some 1000, clicks = Some 50,
       conversiones = Some 2, costo_total = Some 50, revenue_generado = Some 400,
       ctr = Some 5, conversion_rate = Some 4, cpc = Some 1, cpa = Some 25,
       roas = Some 8 \<rparr>"

definition ejemplo :: dataframe where
  "ejemplo = [campana_tiktok, campana_facebook]"

text \<open>
  The order in which the specification lists the groups of an aggregation: each key
  value at the place of its first occurrence in the dataset.
\<close>

definition first_occurrence_order :: "'a option list \<Rightarrow> 'a list" where
  "first_occurrence_order xs = rev (remdups (rev (dropna xs)))"

text \<open>Amounts with at most two decimals: the values that \<^verbatim>\<open>round(2)\<close> leaves alone.\<close>

definition two_decimals :: "rat \<Rightarrow> bool" where
  "two_decimals x = (of_int \<lfloor>x * 100\<rfloor> = x * 100)"

definition two_decimals_cell :: "rat option \<Rightarrow> bool" where
  "two_decimals_cell c = (case c of None \<Rightarrow> True | Some v \<Rightarrow> two_decimals v)"

text \<open>
  A column of whole amounts within the exact range: every value present is a whole
  number, and a hundred times the sum of the magnitudes is at most \<open>2 ^ 53\<close>. Every
  sum of such amounts, in any order, and its rounding to two decimals are exact in
  float64 and in int64.
\<close>

definition whole_amounts :: "(campaign \<Rightarrow> rat option) \<Rightarrow> dataframe \<Rightarrow> bool" where
  "whole_amounts col df =
     ((\<forall>r\<in>set df. case col r of None \<Rightarrow> True | Some v \<Rightarrow> of_int \<lfloor>v\<rfloor> = v)
      \<and> (\<Sum>r\<leftarrow>df. case col r of None \<Rightarrow> 0 | Some v \<Rightarrow> \<bar>v\<bar>) * 100 \<le> 2 ^ 53)"

text \<open>
  \<open>has_roas key df\<close>: some record has both the key and a ROAS, so that some group
  of the key has a mean ROAS that is a number.
\<close>

definition has_roas :: "(campaign \<Rightarrow> string option) \<Rightarrow> dataframe \<Rightarrow> bool" where
  "has_roas key df = (\<exists>r\<in>set df. key r \<noteq> None \<and> roas r \<noteq> None)"

text \<open>
  Variants of the example: costs of four thousandths, and a campaign whose platform is
  missing.
\<close>

definition ejemplo_milesimas :: dataframe where
  "ejemplo_milesimas =
     [campana_tiktok\<lparr>costo_total := Some (1 / 250)\<rparr>,
      campana_facebook\<lparr>costo_total := Some (1 / 250)\<rparr>]"

definition ejemplo_sin_plataforma :: dataframe where
  "ejemplo_sin_plataforma = [campana_tiktok\<lparr>plataforma := None\<rparr>, campana_facebook]"

text \<open>
  \<open>precedes ascending col a b\<close>: row \<open>a\<close> may stand before row \<open>b\<close> in a ranking by
  \<open>col\<close>. A row whose value is missing stands after every row that has one.
\<close>

definition precedes :: "bool \<Rightarrow> (campaign \<Rightarrow> rat option) \<Rightarrow> campaign \<Rightarrow> campaign \<Rightarrow> bool" where
  "precedes ascending col a b =
     (case col b of None \<Rightarrow> True
      | Some y \<Rightarrow> (case col a of None \<Rightarrow> False
                  | Some x \<Rightarrow> if ascending then x \<le> y else y \<le> x))"

text \<open>A third campaign whose ROAS ties with the Facebook campaign.\<close>

definition campana_empate :: campaign where
  "campana_empate = campana_tiktok\<lparr>campana_id := Some ''C003'', roas := Some 8\<rparr>"

definition ejemplo_empate :: dataframe where
  "ejemplo_empate = [campana_tiktok, campana_facebook, campana_empate]"

text \<open>
  Replacing values by missing values: \<open>inject_missing c I df\<close> is the dataset \<open>df\<close>
  with the cell of column \<open>c\<close> made missing in the rows whose index is in \<open>I\<close>.
\<close>

fun set_missing :: "column \<Rightarrow> campaign \<Rightarrow> campaign" where
  "set_missing Campana_id r = r\<lparr>campana_id := None\<rparr>"
| "set_missing Plataforma r = r\<lparr>plataforma := None\<rparr>"
| "set_missing Tipo_campana r = r\<lparr>tipo_campana := None\<rparr>"
| "set_missing Audiencia_objetivo r = r\<lparr>audiencia_objetivo := None\<rparr>"
| "set_missing Presupuesto_diario r = r\<lparr>presupuesto_diario := None\<rparr>"
| "set_missing Impresiones r = r\<lparr>impresiones := None\<rparr>"
| "set_missing Clicks r = r\<lparr>clicks := None\<rparr>"
| "set_missing Conversiones r = r\<lparr>conversiones := None\<rparr>"
| "set_missing Costo_total r = r\<lparr>costo_total := None\<rparr>"
| "set_missing Revenue_generado r = r\<lparr>revenue_generado := None\<rparr>"
| "set_missing Ctr r = r\<lparr>ctr := None\<rparr>"
| "set_missing Conversion_rate r = r\<lparr>conversion_rate := None\<rparr>"
| "set_missing Cpc r = r\<lparr>cpc := None\<rparr>"
| "set_missing Cpa r = r\<lparr>cpa := None\<rparr>"
| "set_missing Roas r = r\<lparr>roas := None\<rparr>"

definition inject_missing :: "column \<Rightarrow> nat set \<Rightarrow> dataframe \<Rightarrow> dataframe" where
  "inject_missing c I df =
     map (\<lambda>i. if i \<in> I then set_missing c (df ! i) else df ! i) [0..<length df]"

text \<open>
  The indicators of the example, and a campaign that earned nothing, with the
  indicators of the dataset it makes alone.
\<close>

definition kpis_ejemplo :: kpis where
  "kpis_ejemplo =
     \<lparr> kpi_ctr = Fin 5, kpi_conversion_rate = Fin 3, kpi_cpc = Fin 1, kpi_cpa = Fin (75 / 2),
       kpi_roas = Fin 5, kpi_presupuesto_total = Fin 50, kpi_costo_total = Fin 100,
       kpi_revenue_total = Fin 500, kpi_ganancia_neta = Fin 400 \<rparr>"


text \<open>The example with every ROAS missing.\<close>

definition ejemplo_sin_roas :: dataframe where
  "ejemplo_sin_roas = [campana_tiktok\<lparr>roas := None\<rparr>, campana_facebook\<lparr>roas := None\<rparr>]"


section \<open>Properties\<close>

subsection \<open>Reductions over a column\<close>

lemma sum_dropna_map:
  "sum_list (dropna (map col df)) = (\<Sum>r\<leftarrow>df. case col r of None \<Rightarrow> 0 | Some v \<Rightarrow> v)"
  by (induction df) (auto simp: dropna_def)

lemma series_sum_map: "series_sum (map col df) = column_total col df"
  by (simp add: series_sum_def sum_dropna_map column_total_def)

lemma series_mean_single: "series_mean [c] = cell c"
  by (simp add: series_mean_def series_count_def series_sum_def dropna_def cell_def
      split: option.splits)

lemma indicadores_clave_fields:
  "indicadores_clave df =
     Inr \<lparr> kpi_ctr = series_mean (map ctr df),
           kpi_conversion_rate = series_mean (map conversion_rate df),
           kpi_cpc = series_mean (map cpc df),
           kpi_cpa = series_mean (map cpa df),
           kpi_roas = series_mean (map roas df),
           kpi_presupuesto_total = Fin (series_sum (map presupuesto_diario df)),
           kpi_costo_total = Fin (series_sum (map costo_total df)),
           kpi_revenue_total = Fin (series_sum (map revenue_generado df)),
           kpi_ganancia_neta =
             Fin (series_sum (map revenue_generado df) - series_sum (map costo_total df)) \<rparr>"
  by (simp add: indicadores_clave_def Let_def fsub_def)

subsection \<open>Key indicators\<close>

text \<open>
  C3 as the specification states it: on a dataset of zero records the computation of
  the indicators fails. It does not; it returns a dictionary.
\<close>

theorem indicadores_clave_empty_counterexample:
  "\<not> isl (indicadores_clave [])"
  by (simp add: indicadores_clave_fields)

text \<open>
  C3, amended. On a dataset of zero records \<^verbatim>\<open>indicadores_clave\<close> raises nothing and
  returns its dictionary: the five means are NaN, the three totals and the net profit
  are 0.
\<close>

theorem indicadores_clave_empty:
  "indicadores_clave [] =
     Inr \<lparr> kpi_ctr = NaN, kpi_conversion_rate = NaN, kpi_cpc = NaN, kpi_cpa = NaN,
           kpi_roas = NaN, kpi_presupuesto_total = Fin 0, kpi_costo_total = Fin 0,
           kpi_revenue_total = Fin 0, kpi_ganancia_neta = Fin 0 \<rparr>"
  by (simp add: indicadores_clave_fields series_mean_def series_count_def series_sum_def
      dropna_def)

text \<open>
  C7. On a dataset of exactly one record, the five means that \<^verbatim>\<open>indicadores_clave\<close>
  returns are that record's own ctr, conversion_rate, cpc, cpa and roas, unchanged
  (a missing cell, which is NaN, stays NaN).
\<close>

theorem indicadores_clave_single_record:
  "\<exists>k. indicadores_clave [r] = Inr k
    \<and> kpi_ctr k = cell (ctr r)
    \<and> kpi_conversion_rate k = cell (conversion_rate r)
    \<and> kpi_cpc k = cell (cpc r)
    \<and> kpi_cpa k = cell (cpa r)
    \<and> kpi_roas k = cell (roas r)"
  by (simp add: indicadores_clave_fields series_mean_single)


subsection \<open>Grouped tables\<close>

lemma set_dropna: "set (dropna xs) = {k. Some k \<in> set xs}"
  by (induction xs) (auto simp: dropna_def)

lemma set_dropna_map: "set (dropna (map key df)) = {k. \<exists>r\<in>set df. key r = Some k}"
  unfolding set_dropna by force

lemma groupby_keys: "map fst (groupby key df) = sort (remdups (dropna (map key df)))"
  by (simp add: groupby_def comp_def)

lemma keys_plataforma: "map fst (analisis_por_plataforma df) = map fst (groupby plataforma df)"
  by (simp add: analisis_por_plataforma_def comp_def case_prod_beta)

lemma keys_tipo: "map fst (analisis_por_tipo_campana df) = map fst (groupby tipo_campana df)"
  by (simp add: analisis_por_tipo_campana_def comp_def case_prod_beta)

lemma keys_edad: "map fst (analisis_por_edad df) = map fst (groupby audiencia_objetivo df)"
  by (simp add: analisis_por_edad_def comp_def case_prod_beta)

lemma groupby_keys_sorted:
  "sorted (map fst (groupby key df)) \<and> distinct (map fst (groupby key df))
   \<and> set (map fst (groupby key df)) = {k. \<exists>r\<in>set df. key r = Some k}"
  by (simp add: groupby_keys set_dropna_map)

text \<open>
  C2 as the specification states it: the groups of an aggregation are listed in the
  order of first occurrence of their keys. In the example the TikTok campaign comes
  first, and the table lists Facebook first.
\<close>

theorem groups_first_occurrence_counterexample:
  "map fst (analisis_por_plataforma ejemplo) = [''Facebook Ads'', ''TikTok Ads'']
   \<and> first_occurrence_order (map plataforma ejemplo) = [''TikTok Ads'', ''Facebook Ads'']
   \<and> map fst (analisis_por_plataforma ejemplo)
       \<noteq> first_occurrence_order (map plataforma ejemplo)"
  by code_simp

text \<open>
  C2, amended. The three grouped tables (by platform, by campaign type, by audience)
  list their groups in ascending order of the key value, one group for each key value
  that occurs in the dataset.
\<close>

theorem groups_sorted_by_key:
  "sorted (map fst (analisis_por_plataforma df))
   \<and> distinct (map fst (analisis_por_plataforma df))
   \<and> set (map fst (analisis_por_plataforma df)) = {k. \<exists>r\<in>set df. plataforma r = Some k}
   \<and> sorted (map fst (analisis_por_tipo_campana df))
   \<and> distinct (map fst (analisis_por_tipo_campana df))
   \<and> set (map fst (analisis_por_tipo_campana df)) = {k. \<exists>r\<in>set df. tipo_campana r = Some k}
   \<and> sorted (map fst (analisis_por_edad df))
   \<and> distinct (map fst (analisis_por_edad df))
   \<and> set (map fst (analisis_por_edad df)) = {k. \<exists>r\<in>set df. audiencia_objetivo r = Some k}"
  unfolding keys_plataforma keys_tipo keys_edad
  using groupby_keys_sorted [of plataforma df] groupby_keys_sorted [of tipo_campana df]
    groupby_keys_sorted [of audiencia_objetivo df]
  by blast

lemma delta_sum_list_absent:
  "k0 \<notin> set ks \<Longrightarrow> (\<Sum>k\<leftarrow>ks. if k0 = k then v else 0) = (0::rat)"
  by (induction ks) auto

lemma delta_sum_list:
  "distinct ks \<Longrightarrow> k0 \<in> set ks \<Longrightarrow> (\<Sum>k\<leftarrow>ks. if k0 = k then v else 0) = (v::rat)"
  by (induction ks) (auto simp: delta_sum_list_absent)

lemma column_total_Cons:
  "column_total col (r # df) = (case col r of None \<Rightarrow> 0 | Some v \<Rightarrow> v) + column_total col df"
  by (simp add: column_total_def)

lemma sum_groups:
  assumes "distinct ks" and "\<forall>r\<in>set df. \<exists>k\<in>set ks. key r = Some k"
  shows "(\<Sum>k\<leftarrow>ks. column_total col (filter (\<lambda>r. key r = Some k) df)) = column_total col df"
  using assms(2)
proof (induction df)
  case Nil
  then show ?case by (simp add: column_total_def)
next
  case (Cons r df)
  then obtain k0 where k0: "k0 \<in> set ks" "key r = Some k0"
    by auto
  let ?v = "case col r of None \<Rightarrow> 0 | Some v \<Rightarrow> v"
  have "(\<Sum>k\<leftarrow>ks. column_total col (filter (\<lambda>r. key r = Some k) (r # df)))
      = (\<Sum>k\<leftarrow>ks. (if k0 = k then ?v else 0) + column_total col (filter (\<lambda>r. key r = Some k) df))"
    using k0 by (intro arg_cong [where f = sum_list] map_cong) (auto simp: column_total_Cons)
  also have "\<dots> = (\<Sum>k\<leftarrow>ks. if k0 = k then ?v else 0)
      + (\<Sum>k\<leftarrow>ks. column_total col (filter (\<lambda>r. key r = Some k) df))"
    by (simp add: sum_list_addf)
  also have "\<dots> = ?v + column_total col df"
    using Cons assms(1) k0 by (simp add: delta_sum_list)
  finally show ?case
    by (simp add: column_total_Cons)
qed

lemma sum_groupby:
  assumes "\<forall>r\<in>set df. key r \<noteq> None"
  shows "(\<Sum>g\<leftarrow>groupby key df. series_sum (map col (snd g))) = column_total col df"
proof -
  have "\<forall>r\<in>set df. \<exists>k\<in>set (sort (remdups (dropna (map key df)))). key r = Some k"
    using assms by (fastforce simp: set_dropna_map)
  then have "(\<Sum>k\<leftarrow>sort (remdups (dropna (map key df))).
       column_total col (filter (\<lambda>r. key r = Some k) df)) = column_total col df"
    by (intro sum_groups) simp_all
  then show ?thesis
    by (simp add: groupby_def comp_def series_sum_map)
qed


lemma two_decimals_iff_Ints: "two_decimals x \<longleftrightarrow> x * 100 \<in> \<int>"
  unfolding two_decimals_def
  by (metis Ints_of_int of_int_floor)

lemma round2_two_decimals:
  assumes "two_decimals x"
  shows "round2 x = x"
proof -
  from assms obtain n :: int where n: "x * 100 = of_int n"
    unfolding two_decimals_def by metis
  have "rint (of_int n) = n"
    by (simp add: rint_def)
  then show ?thesis
    using n by (simp add: round2_def)
qed

lemma two_decimals_sum_list:
  "\<forall>v\<in>set vs. two_decimals v \<Longrightarrow> two_decimals (sum_list vs)"
  by (induction vs) (auto simp: two_decimals_iff_Ints distrib_right)

lemma two_decimals_series_sum:
  assumes "\<forall>r\<in>set g. two_decimals_cell (col r)"
  shows "two_decimals (series_sum (map col g))"
proof -
  have "\<forall>v\<in>set (dropna (map col g)). two_decimals v"
    using assms by (auto simp: set_dropna_map two_decimals_cell_def)
  then show ?thesis
    unfolding series_sum_def by (rule two_decimals_sum_list)
qed

lemma groupby_rows: "g \<in> set (groupby key df) \<Longrightarrow> set (snd g) \<subseteq> set df"
  by (auto simp: groupby_def)

lemma rounded_sum_groupby:
  assumes "\<forall>r\<in>set df. key r \<noteq> None" and "\<forall>r\<in>set df. two_decimals_cell (col r)"
  shows "(\<Sum>g\<leftarrow>groupby key df. round2 (series_sum (map col (snd g)))) = column_total col df"
proof -
  have "round2 (series_sum (map col (snd g))) = series_sum (map col (snd g))"
    if "g \<in> set (groupby key df)" for g
  proof -
    have "\<forall>r\<in>set (snd g). two_decimals_cell (col r)"
      using groupby_rows [OF that] assms(2) by blast
    then show ?thesis
      by (intro round2_two_decimals two_decimals_series_sum)
  qed
  then have "(\<Sum>g\<leftarrow>groupby key df. round2 (series_sum (map col (snd g))))
      = (\<Sum>g\<leftarrow>groupby key df. series_sum (map col (snd g)))"
    by (intro arg_cong [where f = sum_list] map_cong) simp_all
  then show ?thesis
    by (simp add: sum_groupby [OF assms(1)])
qed

lemma plataforma_sums:
  "map (pl_presupuesto_total \<circ> snd) (analisis_por_plataforma df)
     = map (\<lambda>g. round2 (series_sum (map presupuesto_diario (snd g)))) (groupby plataforma df)"
  "map (pl_impresiones \<circ> snd) (analisis_por_plataforma df)
     = map (\<lambda>g. round2 (series_sum (map impresiones (snd g)))) (groupby plataforma df)"
  "map (pl_clicks \<circ> snd) (analisis_por_plataforma df)
     = map (\<lambda>g. round2 (series_sum (map clicks (snd g)))) (groupby plataforma df)"
  "map (pl_conversiones \<circ> snd) (analisis_por_plataforma df)
     = map (\<lambda>g. round2 (series_sum (map conversiones (snd g)))) (groupby plataforma df)"
  "map (pl_costo_total \<circ> snd) (analisis_por_plataforma df)
     = map (\<lambda>g. round2 (series_sum (map costo_total (snd g)))) (groupby plataforma df)"
  "map (pl_revenue \<circ> snd) (analisis_por_plataforma df)
     = map (\<lambda>g. round2 (series_sum (map revenue_generado (snd g)))) (groupby plataforma df)"
  by (simp_all add: analisis_por_plataforma_def comp_def case_prod_beta)

lemma tipo_sums:
  "map (tp_total_clicks \<circ> snd) (analisis_por_tipo_campana df)
     = map (\<lambda>g. round2 (series_sum (map clicks (snd g)))) (groupby tipo_campana df)"
  "map (tp_conversiones \<circ> snd) (analisis_por_tipo_campana df)
     = map (\<lambda>g. round2 (series_sum (map conversiones (snd g)))) (groupby tipo_campana df)"
  by (simp_all add: analisis_por_tipo_campana_def comp_def case_prod_beta)

lemma edad_sums:
  "map (ed_conversiones \<circ> snd) (analisis_por_edad df)
     = map (\<lambda>g. round2 (series_sum (map conversiones (snd g)))) (groupby audiencia_objetivo df)"
  "map (ed_costo \<circ> snd) (analisis_por_edad df)
     = map (\<lambda>g. round2 (series_sum (map costo_total (snd g)))) (groupby audiencia_objetivo df)"
  "map (ed_revenue \<circ> snd) (analisis_por_edad df)
     = map (\<lambda>g. round2 (series_sum (map revenue_generado (snd g)))) (groupby audiencia_objetivo df)"
  by (simp_all add: analisis_por_edad_def comp_def case_prod_beta)

text \<open>
  C6 as the specification states it: the per-group sums of a metric add up to the sum of
  the metric over the dataset. The table holds the sums rounded to two decimals, and a
  record without the key is in no group: two costs of 0.004 under two platforms are
  listed as 0.00 and 0.00, and the cost of a campaign with no platform is in no row.
\<close>

theorem group_sums_conserve_total_counterexample:
  "sum_list (map (pl_costo_total \<circ> snd) (analisis_por_plataforma ejemplo_milesimas))
     \<noteq> column_total costo_total ejemplo_milesimas
   \<and> sum_list (map (pl_costo_total \<circ> snd) (analisis_por_plataforma ejemplo_sin_plataforma))
     \<noteq> column_total costo_total ejemplo_sin_plataforma"
  by code_simp

lemma whole_two_decimals:
  assumes "whole_amounts col df"
  shows "\<forall>r\<in>set df. two_decimals_cell (col r)"
proof
  fix r assume "r \<in> set df"
  with assms have w: "case col r of None \<Rightarrow> True | Some v \<Rightarrow> of_int \<lfloor>v\<rfloor> = v"
    unfolding whole_amounts_def by blast
  show "two_decimals_cell (col r)"
  proof (cases "col r")
    case None
    then show ?thesis by (simp add: two_decimals_cell_def)
  next
    case (Some v)
    with w have "of_int \<lfloor>v\<rfloor> = v" by simp
    then have "v \<in> \<int>" by (metis Ints_of_int)
    then have "v * 100 \<in> \<int>" by simp
    then show ?thesis
      using Some by (simp add: two_decimals_cell_def two_decimals_iff_Ints)
  qed
qed

lemma whole_sum_groupby:
  assumes "\<forall>r\<in>set df. key r \<noteq> None" and "whole_amounts col df"
  shows "(\<Sum>g\<leftarrow>groupby key df. round2 (series_sum (map col (snd g)))) = column_total col df"
  using rounded_sum_groupby [OF assms(1) whole_two_decimals [OF assms(2)]] .

text \<open>
  C6, amended. For every grouped table whose key no record lacks, and every summed metric
  of the table whose values are whole numbers, a hundred times the sum of their
  magnitudes being at most \<open>2 ^ 53\<close> (as counts of impressions, clicks and conversions
  are), the per-group sums of the metric add up to the sum of the metric over the entire
  dataset. Amounts with decimals are left out: sums of them are rounded by float64, and
  the rounded sums of the groups need not add up to the rounded sum of the dataset.
\<close>

theorem group_sums_conserve_total:
  "((\<forall>r\<in>set df. plataforma r \<noteq> None) \<and> whole_amounts presupuesto_diario df \<longrightarrow>
       sum_list (map (pl_presupuesto_total \<circ> snd) (analisis_por_plataforma df))
         = column_total presupuesto_diario df)
   \<and> ((\<forall>r\<in>set df. plataforma r \<noteq> None) \<and> whole_amounts impresiones df \<longrightarrow>
       sum_list (map (pl_impresiones \<circ> snd) (analisis_por_plataforma df))
         = column_total impresiones df)
   \<and> ((\<forall>r\<in>set df. plataforma r \<noteq> None) \<and> whole_amounts clicks df \<longrightarrow>
       sum_list (map (pl_clicks \<circ> snd) (analisis_por_plataforma df))
         = column_total clicks df)
   \<and> ((\<forall>r\<in>set df. plataforma r \<noteq> None) \<and> whole_amounts conversiones df \<longrightarrow>
       sum_list (map (pl_conversiones \<circ> snd) (analisis_por_plataforma df))
         = column_total conversiones df)
   \<and> ((\<forall>r\<in>set df. plataforma r \<noteq> None) \<and> whole_amounts costo_total df \<longrightarrow>
       sum_list (map (pl_costo_total \<circ> snd) (analisis_por_plataforma df))
         = column_total costo_total df)
   \<and> ((\<forall>r\<in>set df. plataforma r \<noteq> None) \<and> whole_amounts revenue_generado df \<longrightarrow>
       sum_list (map (pl_revenue \<circ> snd) (analisis_por_plataforma df))
         = column_total revenue_generado df)
   \<and> ((\<forall>r\<in>set df. tipo_campana r \<noteq> None) \<and> whole_amounts clicks df \<longrightarrow>
       sum_list (map (tp_total_clicks \<circ> snd) (analisis_por_tipo_campana df))
         = column_total clicks df)
   \<and> ((\<forall>r\<in>set df. tipo_campana r \<noteq> None) \<and> whole_amounts conversiones df \<longrightarrow>
       sum_list (map (tp_conversiones \<circ> snd) (analisis_por_tipo_campana df))
         = column_total conversiones df)
   \<and> ((\<forall>r\<in>set df. audiencia_objetivo r \<noteq> None) \<and> whole_amounts conversiones df \<longrightarrow>
       sum_list (map (ed_conversiones \<circ> snd) (analisis_por_edad df))
         = column_total conversiones df)
   \<and> ((\<forall>r\<in>set df. audiencia_objetivo r \<noteq> None) \<and> whole_amounts costo_total df \<longrightarrow>
       sum_list (map (ed_costo \<circ> snd) (analisis_por_edad df))
         = column_total costo_total df)
   \<and> ((\<forall>r\<in>set df. audiencia_objetivo r \<noteq> None) \<and> whole_amounts revenue_generado df \<longrightarrow>
       sum_list (map (ed_revenue \<circ> snd) (analisis_por_edad df))
         = column_total revenue_generado df)"
  unfolding plataforma_sums tipo_sums edad_sums
  by (intro conjI impI; elim conjE; rule whole_sum_groupby; assumption)

theorem group_sums_conserve_total_witness:
  "plataforma campana_tiktok \<noteq> None \<and> plataforma campana_facebook \<noteq> None
   \<and> whole_amounts clicks ejemplo \<and> whole_amounts costo_total ejemplo
   \<and> sum_list (map (pl_clicks \<circ> snd) (analisis_por_plataforma ejemplo)) = 100
   \<and> column_total clicks ejemplo = 100
   \<and> sum_list (map (pl_costo_total \<circ> snd) (analisis_por_plataforma ejemplo)) = 100
   \<and> column_total costo_total ejemplo = 100"
proof -
  have keys: "plataforma campana_tiktok \<noteq> None" "plataforma campana_facebook \<noteq> None"
    by (simp_all add: campana_tiktok_def campana_facebook_def)
  have whole: "whole_amounts clicks ejemplo" "whole_amounts costo_total ejemplo"
    by (simp_all add: whole_amounts_def ejemplo_def campana_tiktok_def campana_facebook_def)
  have totals: "column_total clicks ejemplo = 100" "column_total costo_total ejemplo = 100"
    by (simp_all add: column_total_def ejemplo_def campana_tiktok_def campana_facebook_def)
  have "\<forall>r\<in>set ejemplo. plataforma r \<noteq> None"
    using keys by (simp add: ejemplo_def)
  with group_sums_conserve_total [of ejemplo] whole
  have "sum_list (map (pl_clicks \<circ> snd) (analisis_por_plataforma ejemplo))
          = column_total clicks ejemplo"
    "sum_list (map (pl_costo_total \<circ> snd) (analisis_por_plataforma ejemplo))
          = column_total costo_total ejemplo"
    by blast+
  then show ?thesis
    using keys whole totals by simp
qed

subsection \<open>Rankings\<close>

lemma length_select_order: "length (select_order asc col df) = length df"
  using sum_length_filter_compl [of "\<lambda>r. col r \<noteq> None" df]
  by (simp add: select_order_def)

lemma mset_select_order: "mset (select_order asc col df) = mset df"
  by (simp add: select_order_def)

lemma sorted_select_order: "sorted_wrt (precedes asc col) (select_order asc col df)"
proof -
  let ?f = "\<lambda>r. if asc then the (col r) else - the (col r)"
  let ?P = "filter (\<lambda>r. col r \<noteq> None) df"
  let ?M = "filter (\<lambda>r. col r = None) df"
  have "sorted (map ?f (sort_key ?f ?P))"
    by (rule sorted_sort_key)
  then have "sorted_wrt (\<lambda>a b. ?f a \<le> ?f b) (sort_key ?f ?P)"
    by (simp add: sorted_wrt_map)
  then have "sorted_wrt (precedes asc col) (sort_key ?f ?P)"
    by (rule sorted_wrt_mono_rel [rotated]) (auto simp: precedes_def)
  moreover have "sorted_wrt (precedes asc col) ?M"
    by (rule sorted_wrt_mono_rel [where P = "\<lambda>a b. True"]) (auto simp: precedes_def sorted_wrt_iff_nth_less)
  moreover have "\<forall>a\<in>set (sort_key ?f ?P). \<forall>b\<in>set ?M. precedes asc col a b"
    by (auto simp: precedes_def)
  ultimately show ?thesis
    by (simp add: select_order_def sorted_wrt_append)
qed

lemma stable_select_order:
  "filter (\<lambda>r. col r = v) (select_order asc col df) = filter (\<lambda>r. col r = v) df"
proof (cases v)
  case None
  have "filter (\<lambda>r. col r = None) (filter (\<lambda>r. col r \<noteq> None) df) = []"
    by (auto simp: filter_empty_conv)
  then show ?thesis
    using None by (simp add: select_order_def filter_sort del: filter_filter)
next
  case (Some x)
  let ?f = "\<lambda>r. if asc then the (col r) else - the (col r)"
  let ?P = "filter (\<lambda>r. col r \<noteq> None) df"
  let ?k = "if asc then x else - x"
  have key: "(col r = Some x) = (?f r = ?k)" if "col r \<noteq> None" for r
    using that by auto
  have "filter (\<lambda>r. col r = Some x) (sort_key ?f ?P) = filter (\<lambda>r. ?f r = ?k) (sort_key ?f ?P)"
    by (rule filter_cong) (auto simp: key)
  also have "\<dots> = filter (\<lambda>r. ?f r = ?k) ?P"
    by (rule sort_key_stable)
  also have "\<dots> = filter (\<lambda>r. col r = Some x) ?P"
    by (rule filter_cong) (auto simp: key)
  also have "\<dots> = filter (\<lambda>r. col r = Some x) df"
    by (auto intro: filter_cong)
  finally show ?thesis
    using Some by (auto simp: select_order_def filter_empty_conv)
qed

lemma nlargest_rows:
  "df \<noteq> [] \<Longrightarrow> nlargest n col df = Inr (take (nat n) (select_order False col df))"
  by (simp add: nlargest_def)

lemma nsmallest_rows:
  "df \<noteq> [] \<Longrightarrow> nsmallest n col df = Inr (take (nat n) (select_order True col df))"
  by (simp add: nsmallest_def)

lemma take_select_order:
  "length (take m (select_order asc col df)) = min m (length df)"
  "sorted_wrt (precedes asc col) (take m (select_order asc col df))"
  "prefix (filter (\<lambda>r. col r = v) (take m (select_order asc col df)))
     (filter (\<lambda>r. col r = v) df)"
  "\<exists>rest. mset df = mset (take m (select_order asc col df)) + mset rest
     \<and> (\<forall>a\<in>set (take m (select_order asc col df)). \<forall>b\<in>set rest. precedes asc col a b)"
proof -
  let ?xs = "select_order asc col df"
  show "length (take m ?xs) = min m (length df)"
    by (simp add: length_select_order min.commute)
  have srt: "sorted_wrt (precedes asc col) (take m ?xs @ drop m ?xs)"
    using sorted_select_order [of asc col df] by simp
  then show "sorted_wrt (precedes asc col) (take m ?xs)"
    unfolding sorted_wrt_append by blast
  have "prefix (filter (\<lambda>r. col r = v) (take m ?xs)) (filter (\<lambda>r. col r = v) ?xs)"
    by (intro filter_mono_prefix take_is_prefix)
  then show "prefix (filter (\<lambda>r. col r = v) (take m ?xs)) (filter (\<lambda>r. col r = v) df)"
    by (simp add: stable_select_order)
  have "mset df = mset (take m ?xs) + mset (drop m ?xs)"
    by (metis append_take_drop_id mset_append mset_select_order)
  moreover have "\<forall>a\<in>set (take m ?xs). \<forall>b\<in>set (drop m ?xs). precedes asc col a b"
    using srt unfolding sorted_wrt_append by blast
  ultimately show "\<exists>rest. mset df = mset (take m ?xs) + mset rest
     \<and> (\<forall>a\<in>set (take m ?xs). \<forall>b\<in>set rest. precedes asc col a b)"
    by blast
qed

text \<open>
  C5 as the specification states it: for every dataset the ranking is a sequence of
  min(n, len(dataset)) rows, and \<open>n \<le> 0\<close> gives the empty sequence, not an error. On
  the dataset of zero rows both rankings raise TypeError, for every \<open>n\<close>.
\<close>

theorem top_n_ranking_counterexample:
  "nlargest 3 roas [] = Inl TypeError \<and> nsmallest 3 roas [] = Inl TypeError
   \<and> campanas_top [] 3 = Inl TypeError \<and> campanas_bottom [] 3 = Inl TypeError
   \<and> campanas_top [] 0 = Inl TypeError \<and> campanas_bottom [] 0 = Inl TypeError"
  by (simp add: nlargest_def nsmallest_def campanas_top_def campanas_bottom_def)

text \<open>
  C5, amended. For every dataset of at least one row, every column \<open>col\<close> and every
  \<open>n\<close>, \<^verbatim>\<open>nlargest\<close> (top) and \<^verbatim>\<open>nsmallest\<close> (bottom) return min(n, len(dataset))
  rows, ordered by the column descending for top and ascending for bottom (rows with a
  missing value last); the rows of any one value appear in their order in the dataset,
  the first occurrences being the ones kept; the rows left out do not come before any
  row returned; and \<open>n \<le> 0\<close> gives the empty sequence. \<^verbatim>\<open>campanas_top\<close> and
  \<^verbatim>\<open>campanas_bottom\<close> print, for the column roas, the identifier, platform, campaign
  type, ROAS, revenue and cost of these rows, in this order. On the dataset of zero
  rows all four raise TypeError.
\<close>

theorem top_n_ranking:
  "(df = [] \<longrightarrow>
      nlargest n col df = Inl TypeError \<and> nsmallest n col df = Inl TypeError
      \<and> campanas_top df n = Inl TypeError \<and> campanas_bottom df n = Inl TypeError)
   \<and> (df \<noteq> [] \<longrightarrow>
      (\<exists>best worst.
         nlargest n col df = Inr best \<and> nsmallest n col df = Inr worst
         \<and> length best = min (nat n) (length df)
         \<and> length worst = min (nat n) (length df)
         \<and> sorted_wrt (precedes False col) best
         \<and> sorted_wrt (precedes True col) worst
         \<and> (\<forall>v. prefix (filter (\<lambda>r. col r = v) best) (filter (\<lambda>r. col r = v) df))
         \<and> (\<forall>v. prefix (filter (\<lambda>r. col r = v) worst) (filter (\<lambda>r. col r = v) df))
         \<and> (\<exists>rest. mset df = mset best + mset rest
              \<and> (\<forall>a\<in>set best. \<forall>b\<in>set rest. precedes False col a b))
         \<and> (\<exists>rest. mset df = mset worst + mset rest
              \<and> (\<forall>a\<in>set worst. \<forall>b\<in>set rest. precedes True col a b))
         \<and> (n \<le> 0 \<longrightarrow> best = [] \<and> worst = [])))
   \<and> (df \<noteq> [] \<longrightarrow>
      (\<exists>best worst printed_top printed_bottom.
         nlargest n roas df = Inr best \<and> nsmallest n roas df = Inr worst
         \<and> campanas_top df n = Inr printed_top
         \<and> campanas_bottom df n = Inr printed_bottom
         \<and> map rk_campana_id printed_top = map campana_id best
         \<and> map rk_plataforma printed_top = map plataforma best
         \<and> map rk_tipo_campana printed_top = map tipo_campana best
         \<and> map rk_roas printed_top = map roas best
         \<and> map rk_revenue_generado printed_top = map revenue_generado best
         \<and> map rk_costo_total printed_top = map costo_total best
         \<and> map rk_campana_id printed_bottom = map campana_id worst
         \<and> map rk_plataforma printed_bottom = map plataforma worst
         \<and> map rk_tipo_campana printed_bottom = map tipo_campana worst
         \<and> map rk_roas printed_bottom = map roas worst
         \<and> map rk_revenue_generado printed_bottom = map revenue_generado worst
         \<and> map rk_costo_total printed_bottom = map costo_total worst))"
proof (intro conjI impI)
  assume "df = []"
  then show "nlargest n col df = Inl TypeError" "nsmallest n col df = Inl TypeError"
    "campanas_top df n = Inl TypeError" "campanas_bottom df n = Inl TypeError"
    by (simp_all add: nlargest_def nsmallest_def campanas_top_def campanas_bottom_def)
next
  assume ne: "df \<noteq> []"
  let ?best = "take (nat n) (select_order False col df)"
  let ?worst = "take (nat n) (select_order True col df)"
  have "nlargest n col df = Inr ?best" "nsmallest n col df = Inr ?worst"
    using ne by (simp_all add: nlargest_rows nsmallest_rows)
  moreover have "length ?best = min (nat n) (length df)" "length ?worst = min (nat n) (length df)"
    by (simp_all add: length_select_order min.commute)
  moreover have "sorted_wrt (precedes False col) ?best" "sorted_wrt (precedes True col) ?worst"
    by (simp_all add: take_select_order(2))
  moreover have "\<forall>v. prefix (filter (\<lambda>r. col r = v) ?best) (filter (\<lambda>r. col r = v) df)"
    "\<forall>v. prefix (filter (\<lambda>r. col r = v) ?worst) (filter (\<lambda>r. col r = v) df)"
    by (simp_all add: take_select_order(3))
  moreover have "\<exists>rest. mset df = mset ?best + mset rest
      \<and> (\<forall>a\<in>set ?best. \<forall>b\<in>set rest. precedes False col a b)"
    "\<exists>rest. mset df = mset ?worst + mset rest
      \<and> (\<forall>a\<in>set ?worst. \<forall>b\<in>set rest. precedes True col a b)"
    by (rule take_select_order(4))+
  moreover have "n \<le> 0 \<longrightarrow> ?best = [] \<and> ?worst = []"
    by simp
  ultimately show "\<exists>best worst.
         nlargest n col df = Inr best \<and> nsmallest n col df = Inr worst
         \<and> length best = min (nat n) (length df)
         \<and> length worst = min (nat n) (length df)
         \<and> sorted_wrt (precedes False col) best
         \<and> sorted_wrt (precedes True col) worst
         \<and> (\<forall>v. prefix (filter (\<lambda>r. col r = v) best) (filter (\<lambda>r. col r = v) df))
         \<and> (\<forall>v. prefix (filter (\<lambda>r. col r = v) worst) (filter (\<lambda>r. col r = v) df))
         \<and> (\<exists>rest. mset df = mset best + mset rest
              \<and> (\<forall>a\<in>set best. \<forall>b\<in>set rest. precedes False col a b))
         \<and> (\<exists>rest. mset df = mset worst + mset rest
              \<and> (\<forall>a\<in>set worst. \<forall>b\<in>set rest. precedes True col a b))
         \<and> (n \<le> 0 \<longrightarrow> best = [] \<and> worst = [])"
    by blast
next
  assume ne: "df \<noteq> []"
  show "\<exists>best worst printed_top printed_bottom.
         nlargest n roas df = Inr best \<and> nsmallest n roas df = Inr worst
         \<and> campanas_top df n = Inr printed_top
         \<and> campanas_bottom df n = Inr printed_bottom
         \<and> map rk_campana_id printed_top = map campana_id best
         \<and> map rk_plataforma printed_top = map plataforma best
         \<and> map rk_tipo_campana printed_top = map tipo_campana best
         \<and> map rk_roas printed_top = map roas best
         \<and> map rk_revenue_generado printed_top = map revenue_generado best
         \<and> map rk_costo_total printed_top = map costo_total best
         \<and> map rk_campana_id printed_bottom = map campana_id worst
         \<and> map rk_plataforma printed_bottom = map plataforma worst
         \<and> map rk_tipo_campana printed_bottom = map tipo_campana worst
         \<and> map rk_roas printed_bottom = map roas worst
         \<and> map rk_revenue_generado printed_bottom = map revenue_generado worst
         \<and> map rk_costo_total printed_bottom = map costo_total worst"
    using ne
    by (simp add: campanas_top_def campanas_bottom_def nlargest_rows nsmallest_rows
        seleccion_def)
qed

theorem top_n_ranking_witness:
  "ejemplo_empate \<noteq> []
   \<and> nlargest 2 roas ejemplo_empate = Inr [campana_facebook, campana_empate]
   \<and> nsmallest 2 roas ejemplo_empate = Inr [campana_tiktok, campana_facebook]
   \<and> sorted_wrt (precedes False roas) [campana_facebook, campana_empate]
   \<and> prefix [campana_facebook, campana_empate] (filter (\<lambda>r. roas r = Some 8) ejemplo_empate)
   \<and> (\<exists>printed. campanas_top ejemplo_empate 2 = Inr printed
        \<and> map rk_campana_id printed = [Some ''C002'', Some ''C003''])
   \<and> (-1 :: int) \<le> 0 \<and> nlargest (-1) roas ejemplo_empate = Inr []
   \<and> nsmallest (-1) roas ejemplo_empate = Inr []"
proof -
  have ne: "ejemplo_empate \<noteq> []"
    by (simp add: ejemplo_empate_def)
  have best: "nlargest 2 roas ejemplo_empate = Inr [campana_facebook, campana_empate]"
    by code_simp
  have worst: "nsmallest 2 roas ejemplo_empate = Inr [campana_tiktok, campana_facebook]"
    by code_simp
  have ids: "map campana_id [campana_facebook, campana_empate] = [Some ''C002'', Some ''C003'']"
    by (simp add: campana_facebook_def campana_empate_def)
  have eights: "filter (\<lambda>r. roas r = Some 8) [campana_facebook, campana_empate]
      = [campana_facebook, campana_empate]"
    by code_simp
  from top_n_ranking [of ejemplo_empate 2 roas] ne
  have "\<exists>b. nlargest 2 roas ejemplo_empate = Inr b
      \<and> sorted_wrt (precedes False roas) b
      \<and> (\<forall>v. prefix (filter (\<lambda>r. roas r = v) b) (filter (\<lambda>r. roas r = v) ejemplo_empate))"
    and "\<exists>b p. nlargest 2 roas ejemplo_empate = Inr b
      \<and> campanas_top ejemplo_empate 2 = Inr p
      \<and> map rk_campana_id p = map campana_id b"
    by blast+
  then have "sorted_wrt (precedes False roas) [campana_facebook, campana_empate]"
    and pre: "\<forall>v. prefix (filter (\<lambda>r. roas r = v) [campana_facebook, campana_empate])
       (filter (\<lambda>r. roas r = v) ejemplo_empate)"
    and "\<exists>p. campanas_top ejemplo_empate 2 = Inr p
       \<and> map rk_campana_id p = [Some ''C002'', Some ''C003'']"
    unfolding best ids [symmetric] by simp_all
  moreover from pre have "prefix [campana_facebook, campana_empate]
      (filter (\<lambda>r. roas r = Some 8) ejemplo_empate)"
    using eights by metis
  moreover from top_n_ranking [of ejemplo_empate "-1" roas] ne
  have "nlargest (-1) roas ejemplo_empate = Inr []" "nsmallest (-1) roas ejemplo_empate = Inr []"
    by auto
  ultimately show ?thesis
    using ne best worst by simp
qed

subsection \<open>Missing values\<close>

lemma isnull_set_missing: "isnull c' (set_missing c r) = (c' = c \<or> isnull c' r)"
  by (cases c; cases c'; simp)

lemma columns_all: "c \<in> set columns"
  by (cases c) (simp_all add: columns_def)

lemma distinct_columns: "distinct columns"
  by (simp add: columns_def)

lemma count_conv_card:
  "length (filter (isnull c) df) = card {i. i < length df \<and> isnull c (df ! i)}"
  by (rule length_filter_conv_card)

lemma length_inject_missing: "length (inject_missing c I df) = length df"
  by (simp add: inject_missing_def)

lemma nth_inject_missing:
  "i < length df \<Longrightarrow>
     inject_missing c I df ! i = (if i \<in> I then set_missing c (df ! i) else df ! i)"
  by (simp add: inject_missing_def)

lemma count_inject_missing:
  assumes "I \<subseteq> {i. i < length df \<and> \<not> isnull c (df ! i)}"
  shows "length (filter (isnull c') (inject_missing c I df))
           = length (filter (isnull c') df) + (if c' = c then card I else 0)"
proof -
  let ?N = "{i. i < length df \<and> isnull c' (df ! i)}"
  let ?N' = "{i. i < length (inject_missing c I df) \<and> isnull c' (inject_missing c I df ! i)}"
  have fin: "finite ?N" "finite I"
    using assms by (auto intro: finite_subset [of _ "{..<length df}"])
  show ?thesis
  proof (cases "c' = c")
    case True
    have "?N' = ?N \<union> I"
      using assms True
      by (auto simp: length_inject_missing nth_inject_missing isnull_set_missing
          split: if_splits)
    moreover have "?N \<inter> I = {}"
      using assms True by auto
    ultimately have "card ?N' = card ?N + card I"
      using fin by (simp add: card_Un_disjoint)
    then show ?thesis
      using True by (simp add: count_conv_card)
  next
    case False
    have "?N' = ?N"
      using False
      by (auto simp: length_inject_missing nth_inject_missing isnull_set_missing
          split: if_splits)
    then show ?thesis
      using False by (simp add: count_conv_card)
  qed
qed

lemma delta_count_absent:
  "k0 \<notin> set ks \<Longrightarrow> (\<Sum>k\<leftarrow>ks. if k = k0 then v else 0) = (0::nat)"
  by (induction ks) auto

lemma delta_count:
  "distinct ks \<Longrightarrow> k0 \<in> set ks \<Longrightarrow> (\<Sum>k\<leftarrow>ks. if k = k0 then v else 0) = (v::nat)"
  by (induction ks) (auto simp: delta_count_absent)

lemma total_faltantes:
  "sum_list (map snd (faltantes df)) = (\<Sum>c\<leftarrow>columns. length (filter (isnull c) df))"
  by (simp add: faltantes_def comp_def)

lemma total_inject_missing:
  assumes "I \<subseteq> {i. i < length df \<and> \<not> isnull c (df ! i)}"
  shows "sum_list (map snd (faltantes (inject_missing c I df)))
           = sum_list (map snd (faltantes df)) + card I"
  unfolding total_faltantes
  by (simp add: count_inject_missing [OF assms] sum_list_addf delta_count
      distinct_columns columns_all)

lemma map_of_faltantes: "map_of (faltantes df) c = Some (length (filter (isnull c) df))"
proof -
  have "map_of (map (\<lambda>c. (c, length (filter (isnull c) df))) cs) c
      = (if c \<in> set cs then Some (length (filter (isnull c) df)) else None)" for cs
    by (induction cs) auto
  then show ?thesis
    by (simp add: faltantes_def columns_all)
qed

lemma total_zero_iff:
  "sum_list (map snd (faltantes df)) = 0 \<longleftrightarrow> (\<forall>r\<in>set df. \<forall>c. \<not> isnull c r)"
proof -
  have "sum_list (map snd (faltantes df)) = 0
      \<longleftrightarrow> (\<forall>c\<in>set columns. length (filter (isnull c) df) = 0)"
    unfolding total_faltantes by auto
  also have "\<dots> \<longleftrightarrow> (\<forall>c. \<forall>r\<in>set df. \<not> isnull c r)"
    using columns_all by (auto simp: filter_empty_conv)
  finally show ?thesis
    by blast
qed

text \<open>
  C9. \<^verbatim>\<open>validacion_datos\<close> fails on no dataset. The count it reports for a column
  is the number of missing cells of the column, and the total it returns is the sum of
  the counts; the total is 0 exactly when the dataset has no missing value. Replacing,
  in one column, the values of \<open>k\<close> rows that have one by missing values (\<open>k\<close> is the
  number of elements of \<open>I\<close>) raises the count of that column by exactly \<open>k\<close>, leaves
  the counts of the other columns as they are, and raises the total by exactly \<open>k\<close>.
\<close>

theorem validacion_datos_counts:
  "\<exists>fs total fs' total'.
     validacion_datos df = Inr (fs, total)
     \<and> validacion_datos (inject_missing c I df) = Inr (fs', total')
     \<and> (total = 0 \<longleftrightarrow> (\<forall>r\<in>set df. \<forall>c. \<not> isnull c r))
     \<and> (\<forall>c. map_of fs c = Some (length (filter (isnull c) df)))
     \<and> total = (\<Sum>c\<leftarrow>columns. the (map_of fs c))
     \<and> (I \<subseteq> {i. i < length df \<and> \<not> isnull c (df ! i)} \<longrightarrow>
          map_of fs' c = Some (the (map_of fs c) + card I)
          \<and> (\<forall>c'. c' \<noteq> c \<longrightarrow> map_of fs' c' = map_of fs c')
          \<and> total' = total + card I)"
proof -
  let ?df' = "inject_missing c I df"
  have "validacion_datos df = Inr (faltantes df, sum_list (map snd (faltantes df)))"
    and "validacion_datos ?df' = Inr (faltantes ?df', sum_list (map snd (faltantes ?df')))"
    by (simp_all add: validacion_datos_def)
  moreover have "sum_list (map snd (faltantes df))
      = (\<Sum>c\<leftarrow>columns. the (map_of (faltantes df) c))"
    by (simp add: total_faltantes map_of_faltantes)
  moreover have "map_of (faltantes ?df') c
        = Some (the (map_of (faltantes df) c) + card I)
      \<and> (\<forall>c'. c' \<noteq> c \<longrightarrow> map_of (faltantes ?df') c' = map_of (faltantes df) c')
      \<and> sum_list (map snd (faltantes ?df')) = sum_list (map snd (faltantes df)) + card I"
    if "I \<subseteq> {i. i < length df \<and> \<not> isnull c (df ! i)}"
    using total_inject_missing [OF that] count_inject_missing [OF that]
    by (simp add: map_of_faltantes)
  ultimately show ?thesis
    using total_zero_iff [of df] map_of_faltantes [of df]
    by (intro exI conjI; blast)
qed

theorem validacion_datos_counts_witness:
  "validacion_datos ejemplo = Inr (faltantes ejemplo, 0)
   \<and> map_of (faltantes ejemplo) Roas = Some 0
   \<and> roas (ejemplo ! 0) \<noteq> None
   \<and> map_of (faltantes (inject_missing Roas {0} ejemplo)) Roas = Some 1
   \<and> validacion_datos (inject_missing Roas {0} ejemplo)
       = Inr (faltantes (inject_missing Roas {0} ejemplo), 1)"
proof -
  have present: "{0} \<subseteq> {i. i < length ejemplo \<and> \<not> isnull Roas (ejemplo ! i)}"
    by (simp add: ejemplo_def campana_tiktok_def)
  have zero: "\<forall>r\<in>set ejemplo. \<forall>c. \<not> isnull c r"
  proof (intro ballI allI)
    fix r c assume "r \<in> set ejemplo"
    then show "\<not> isnull c r"
      by (cases c) (auto simp: ejemplo_def campana_tiktok_def campana_facebook_def)
  qed
  from validacion_datos_counts [of ejemplo Roas "{0}"] present zero
  show ?thesis
    by (auto simp: validacion_datos_def Let_def ejemplo_def campana_tiktok_def)
qed

subsection \<open>Recommendations\<close>

text \<open>
  \<^verbatim>\<open>recomendaciones\<close> starts with \<^verbatim>\<open>idxmax\<close> and \<^verbatim>\<open>idxmin\<close> of the mean ROAS of the
  platforms and of the audiences. The mean of a group is a number when some record of
  the group has a ROAS, so the four calls return when some record has a platform and a
  ROAS and some record has an audience and a ROAS, and raise ValueError otherwise.
\<close>

lemma series_mean_NaN_iff: "series_mean xs = NaN \<longleftrightarrow> (\<forall>x\<in>set xs. x = None)"
  by (auto simp: series_mean_def series_count_def dropna_def filter_empty_conv)

lemma extreme_None_iff: "extreme better s = None \<longleftrightarrow> (\<forall>e\<in>set s. snd e = NaN)"
proof -
  have "extreme better s = None \<longleftrightarrow> notna s = []"
    by (simp add: extreme_def split: list.splits)
  also have "\<dots> \<longleftrightarrow> (\<forall>e\<in>set s. snd e = NaN)"
    by (simp add: notna_def filter_empty_conv)
  finally show ?thesis .
qed

lemma roas_por_all_NaN_iff:
  "(\<forall>e\<in>set (roas_por key df). snd e = NaN) \<longleftrightarrow> \<not> has_roas key df"
proof
  assume all: "\<forall>e\<in>set (roas_por key df). snd e = NaN"
  show "\<not> has_roas key df"
  proof
    assume "has_roas key df"
    then obtain r k where r: "r \<in> set df" "key r = Some k" "roas r \<noteq> None"
      unfolding has_roas_def by auto
    let ?g = "filter (\<lambda>r. key r = Some k) df"
    have "k \<in> set (dropna (map key df))"
      using r by (auto simp: set_dropna_map)
    then have "(k, series_mean (map roas ?g)) \<in> set (roas_por key df)"
      by (auto simp: roas_por_def groupby_def image_iff)
    with all have "series_mean (map roas ?g) = NaN"
      by fastforce
    then have "roas r = None"
      using r by (simp add: series_mean_NaN_iff)
    with r show False by simp
  qed
next
  assume none: "\<not> has_roas key df"
  show "\<forall>e\<in>set (roas_por key df). snd e = NaN"
  proof
    fix e assume "e \<in> set (roas_por key df)"
    then obtain k where e: "e = (k, series_mean (map roas (filter (\<lambda>r. key r = Some k) df)))"
      by (auto simp: roas_por_def groupby_def)
    have "\<forall>x\<in>set (map roas (filter (\<lambda>r. key r = Some k) df)). x = None"
      using none by (auto simp: has_roas_def)
    then show "snd e = NaN"
      unfolding e by (simp only: snd_conv series_mean_NaN_iff)
  qed
qed

lemma extreme_roas_por_iff:
  "extreme better (roas_por key df) = None \<longleftrightarrow> \<not> has_roas key df"
  by (simp add: extreme_None_iff roas_por_all_NaN_iff)

lemma recomendaciones_returns:
  assumes "has_roas plataforma df" and "has_roas audiencia_objetivo df"
  shows "\<exists>rec. recomendaciones df k = Inr rec
    \<and> roas_saludable rec = fgt (kpi_roas k) (Fin 5)
    \<and> conversion_respetable rec = fgt (kpi_conversion_rate k) (Fin 3)
    \<and> margen rec = fmul (fdiv (kpi_ganancia_neta k) (kpi_revenue_total k)) (Fin 100)"
proof -
  from assms obtain a b c d where
    "extreme fgt (roas_por plataforma df) = Some a"
    "extreme (\<lambda>a b. fgt b a) (roas_por plataforma df) = Some b"
    "extreme fgt (roas_por audiencia_objetivo df) = Some c"
    "extreme (\<lambda>a b. fgt b a) (roas_por audiencia_objetivo df) = Some d"
    using extreme_roas_por_iff by (metis not_None_eq)
  then show ?thesis
    by (simp add: recomendaciones_def idxmax_def idxmin_def)
qed

lemma recomendaciones_raises:
  assumes "\<not> (has_roas plataforma df \<and> has_roas audiencia_objetivo df)"
  shows "recomendaciones df k = Inl ValueError"
proof -
  have "extreme fgt (roas_por plataforma df) = None
      \<or> extreme fgt (roas_por audiencia_objetivo df) = None"
    using assms by (simp add: extreme_roas_por_iff)
  moreover have "extreme (\<lambda>a b. fgt b a) (roas_por plataforma df) = None"
    if "extreme fgt (roas_por plataforma df) = None"
    using that by (simp add: extreme_roas_por_iff)
  ultimately show ?thesis
    by (auto simp: recomendaciones_def idxmax_def idxmin_def split: option.splits)
qed



lemma ejemplo_has_roas: "has_roas plataforma ejemplo" "has_roas audiencia_objetivo ejemplo"
  by (simp_all add: has_roas_def ejemplo_def campana_tiktok_def)


text \<open>
  C8. The two threshold flags of \<^verbatim>\<open>recomendaciones\<close> compare strictly: the healthy
  ROAS branch is taken exactly when the mean ROAS is greater than 5, so not at 5, and
  the respectable conversion rate branch exactly when the mean conversion rate is
  greater than 3, so not at 3; a mean of plus infinity is greater, a mean of minus
  infinity or NaN is not. \<^verbatim>\<open>recomendaciones\<close> reaches the flags exactly when some
  record has a platform and a ROAS and some record has an audience and a ROAS;
  otherwise it raises ValueError before them.
\<close>

theorem recomendaciones_flags_strict:
  "(has_roas plataforma df \<and> has_roas audiencia_objetivo df \<longrightarrow>
      (\<exists>rec. recomendaciones df k = Inr rec
         \<and> roas_saludable rec =
             (case kpi_roas k of Fin x \<Rightarrow> 5 < x | PInf \<Rightarrow> True | NInf \<Rightarrow> False | NaN \<Rightarrow> False)
         \<and> conversion_respetable rec =
             (case kpi_conversion_rate k of
                Fin x \<Rightarrow> 3 < x | PInf \<Rightarrow> True | NInf \<Rightarrow> False | NaN \<Rightarrow> False)
         \<and> (kpi_roas k = Fin 5 \<longrightarrow> \<not> roas_saludable rec)
         \<and> (kpi_conversion_rate k = Fin 3 \<longrightarrow> \<not> conversion_respetable rec)))
   \<and> (\<not> (has_roas plataforma df \<and> has_roas audiencia_objetivo df) \<longrightarrow>
         recomendaciones df k = Inl ValueError)"
proof (intro conjI impI)
  assume "has_roas plataforma df \<and> has_roas audiencia_objetivo df"
  then obtain rec where rec: "recomendaciones df k = Inr rec"
    "roas_saludable rec = fgt (kpi_roas k) (Fin 5)"
    "conversion_respetable rec = fgt (kpi_conversion_rate k) (Fin 3)"
    using recomendaciones_returns [of df k] by blast
  have "fgt a (Fin c) = (case a of Fin x \<Rightarrow> c < x | PInf \<Rightarrow> True | NInf \<Rightarrow> False | NaN \<Rightarrow> False)"
    for a c
    by (cases a) simp_all
  with rec show "\<exists>rec. recomendaciones df k = Inr rec
         \<and> roas_saludable rec =
             (case kpi_roas k of Fin x \<Rightarrow> 5 < x | PInf \<Rightarrow> True | NInf \<Rightarrow> False | NaN \<Rightarrow> False)
         \<and> conversion_respetable rec =
             (case kpi_conversion_rate k of
                Fin x \<Rightarrow> 3 < x | PInf \<Rightarrow> True | NInf \<Rightarrow> False | NaN \<Rightarrow> False)
         \<and> (kpi_roas k = Fin 5 \<longrightarrow> \<not> roas_saludable rec)
         \<and> (kpi_conversion_rate k = Fin 3 \<longrightarrow> \<not> conversion_respetable rec)"
    by auto
next
  assume "\<not> (has_roas plataforma df \<and> has_roas audiencia_objetivo df)"
  then show "recomendaciones df k = Inl ValueError"
    by (rule recomendaciones_raises)
qed

theorem recomendaciones_flags_strict_witness:
  "has_roas plataforma ejemplo \<and> has_roas audiencia_objetivo ejemplo
   \<and> indicadores_clave ejemplo = Inr kpis_ejemplo
   \<and> kpi_roas kpis_ejemplo = Fin 5 \<and> kpi_conversion_rate kpis_ejemplo = Fin 3
   \<and> (\<exists>rec. recomendaciones ejemplo kpis_ejemplo = Inr rec
        \<and> \<not> roas_saludable rec \<and> \<not> conversion_respetable rec)
   \<and> map_sum id mejor_plataforma (recomendaciones ejemplo kpis_ejemplo) = Inr ''Facebook Ads''
   \<and> map_sum id peor_plataforma (recomendaciones ejemplo kpis_ejemplo) = Inr ''TikTok Ads''
   \<and> (\<exists>rec. recomendaciones ejemplo (kpis_ejemplo\<lparr>kpi_roas := PInf\<rparr>) = Inr rec
        \<and> roas_saludable rec)
   \<and> \<not> has_roas plataforma ejemplo_sin_roas
   \<and> recomendaciones ejemplo_sin_roas kpis_ejemplo = Inl ValueError"
proof -
  have kpis: "indicadores_clave ejemplo = Inr kpis_ejemplo"
    by code_simp
  have vals: "kpi_roas kpis_ejemplo = Fin 5" "kpi_conversion_rate kpis_ejemplo = Fin 3"
    "kpi_roas (kpis_ejemplo\<lparr>kpi_roas := PInf\<rparr>) = PInf"
    by (simp_all add: kpis_ejemplo_def)
  have best: "map_sum id mejor_plataforma (recomendaciones ejemplo kpis_ejemplo)
      = Inr ''Facebook Ads''"
    "map_sum id peor_plataforma (recomendaciones ejemplo kpis_ejemplo) = Inr ''TikTok Ads''"
    by code_simp+
  have none: "\<not> has_roas plataforma ejemplo_sin_roas"
    by (simp add: has_roas_def ejemplo_sin_roas_def)
  from recomendaciones_flags_strict [of ejemplo kpis_ejemplo]
    recomendaciones_flags_strict [of ejemplo "kpis_ejemplo\<lparr>kpi_roas := PInf\<rparr>"]
    recomendaciones_flags_strict [of ejemplo_sin_roas kpis_ejemplo]
  show ?thesis
    using kpis vals best none ejemplo_has_roas by auto
qed

end
